theory Spec2Isabelle
  imports Complex_Main "HOL-Library.Word"
begin

section \<open>Binary32 literals\<close>

text \<open>
  The configuration headers write their calibration and CCS parameters as C \<^verbatim>\<open>float\<close>
  literals (\<^verbatim>\<open>0.6f\<close>). A finite \<^verbatim>\<open>float\<close> is a rational number, so the values are
  modelled in \<^typ>\<open>rat\<close>; \<open>f32\<close> is the conversion of a decimal literal to IEEE 754
  binary32: round to nearest, ties to even, 24 significant bits, least exponent \<open>-126\<close>
  (below it the spacing stays \<open>2^-149\<close>). Overflow to infinity is not part of the model:
  \<open>f32\<close> is meant for arguments of magnitude below \<open>2^128\<close>, and the literals of the
  headers lie between 0.15 and 0.732.
\<close>

definition pow2 :: "int \<Rightarrow> rat" where
  "pow2 e = (if 0 \<le> e then 2 ^ nat e else 1 / 2 ^ nat (- e))"

text \<open>Number of binary digits of a positive integer.\<close>

function bits :: "int \<Rightarrow> int" where
  "bits n = (if n \<le> 0 then 0 else 1 + bits (n div 2))"
  by pat_completeness auto
termination
  by (relation "measure nat") auto

declare bits.simps [simp del]

text \<open>For \<open>x > 0\<close>, the exponent \<open>e\<close> with \<open>2^e \<le> x < 2^(e+1)\<close>.\<close>

definition ilog2 :: "rat \<Rightarrow> int" where
  "ilog2 x =
     (let (p, q) = quotient_of x;
          e0 = bits p - bits q
      in if pow2 e0 \<le> x then e0 else e0 - 1)"

definition round_even :: "rat \<Rightarrow> int" where
  "round_even y =
     (let f = \<lfloor>y\<rfloor>; d = y - of_int f
      in if d < 1 / 2 then f
         else if 1 / 2 < d then f + 1
         else if even f then f else f + 1)"

definition f32 :: "rat \<Rightarrow> rat" where
  "f32 x =
     (if x = 0 then 0
      else let a = \<bar>x\<bar>;
               e = max (ilog2 a) (- 126);
               u = pow2 (e - 23)
           in sgn x * of_int (round_even (a / u)) * u)"

text \<open>
  The sum of two \<^verbatim>\<open>float\<close> operands has type \<^verbatim>\<open>float\<close>: the exact sum, rounded once.
\<close>

definition f32_add :: "rat \<Rightarrow> rat \<Rightarrow> rat" where
  "f32_add a b = f32 (a + b)"


section \<open>The configuration headers\<close>

text \<open>
  \<^verbatim>\<open>har_config.h\<close> and \<^verbatim>\<open>har_config_phase1.h\<close> each define the same set of macros, the
  table \<^verbatim>\<open>HAR_CLASS_NAMES\<close> and the function \<^verbatim>\<open>map_to_4class\<close>. A header is a record with
  one field for each macro; integer literals are C \<^verbatim>\<open>int\<close>s, modelled as \<^typ>\<open>int\<close>
  (no arithmetic is done on them here).
\<close>

record har_config =
  HAR_INPUT_LENGTH :: int
  HAR_INPUT_CHANNELS :: int
  HAR_N_CLASSES :: int
  HAR_UNKNOWN_CLASS_ID :: int
  HAR_TEMPERATURE :: rat
  HAR_TAU_UNKNOWN :: rat
  CCS_ALPHA :: rat
  CCS_BETA :: rat
  CCS_THETA_LOW :: rat
  CCS_THETA_HIGH :: rat
  CCS_WINDOW_SIZE :: int
  CCS_MIN_DWELL_MS :: int
  BLE_INTERVAL_QUIET :: int
  BLE_INTERVAL_UNCERTAIN :: int
  BLE_INTERVAL_ACTIVE :: int
  BLE_INTERVAL_FALLBACK :: int
  HAR_CLASS_NAMES :: "string list"

text \<open>\<^verbatim>\<open>har_config.h\<close>: the "baseline" profile.\<close>

definition har_config_h :: har_config where
  "har_config_h =
     \<lparr> HAR_INPUT_LENGTH = 100,
       HAR_INPUT_CHANNELS = 3,
       HAR_N_CLASSES = 12,
       HAR_UNKNOWN_CLASS_ID = 12,
       HAR_TEMPERATURE = f32 (7320 / 10000),
       HAR_TAU_UNKNOWN = f32 (5800 / 10000),
       CCS_ALPHA = f32 (6 / 10),
       CCS_BETA = f32 (4 / 10),
       CCS_THETA_LOW = f32 (40 / 100),
       CCS_THETA_HIGH = f32 (70 / 100),
       CCS_WINDOW_SIZE = 10,
       CCS_MIN_DWELL_MS = 2000,
       BLE_INTERVAL_QUIET = 2000,
       BLE_INTERVAL_UNCERTAIN = 500,
       BLE_INTERVAL_ACTIVE = 100,
       BLE_INTERVAL_FALLBACK = 1000,
       HAR_CLASS_NAMES =
         [''Standing'', ''Sitting'', ''Lying'', ''Walking'', ''Stairs'', ''Bends'', ''Arms'',
          ''Crouch'', ''Cycling'', ''Jogging'', ''Running'', ''Jump'', ''Unknown''] \<rparr>"

text \<open>\<^verbatim>\<open>har_config_phase1.h\<close>: the "phase1" profile.\<close>

definition har_config_phase1_h :: har_config where
  "har_config_phase1_h =
     \<lparr> HAR_INPUT_LENGTH = 100,
       HAR_INPUT_CHANNELS = 3,
       HAR_N_CLASSES = 12,
       HAR_UNKNOWN_CLASS_ID = 12,
       HAR_TEMPERATURE = f32 (7320 / 10000),
       HAR_TAU_UNKNOWN = f32 (5800 / 10000),
       CCS_ALPHA = f32 (6 / 10),
       CCS_BETA = f32 (4 / 10),
       CCS_THETA_LOW = f32 (15 / 100),
       CCS_THETA_HIGH = f32 (35 / 100),
       CCS_WINDOW_SIZE = 10,
       CCS_MIN_DWELL_MS = 1000,
       BLE_INTERVAL_QUIET = 2000,
       BLE_INTERVAL_UNCERTAIN = 500,
       BLE_INTERVAL_ACTIVE = 100,
       BLE_INTERVAL_FALLBACK = 1000,
       HAR_CLASS_NAMES =
         [''Standing'', ''Sitting'', ''Lying'', ''Walking'', ''Stairs'', ''Bends'', ''Arms'',
          ''Crouch'', ''Cycling'', ''Jogging'', ''Running'', ''Jump'', ''Unknown''] \<rparr>"

text \<open>
  The invariants that the specification states for the parameters: \<open>\<alpha> + \<beta> = 1\<close>,
  \<open>0 \<le> \<theta>_low < \<theta>_high \<le> 1\<close>, \<open>T > 0\<close>, \<open>\<tau>\<close> in \<open>[0, 1]\<close>, a window of at least 1, a
  dwell of at least 0 and positive intervals. The sum \<^verbatim>\<open>CCS_ALPHA + CCS_BETA\<close> is the C
  expression on two \<^verbatim>\<open>float\<close>s.
\<close>

definition param_invariants :: "har_config \<Rightarrow> bool" where
  "param_invariants cfg \<longleftrightarrow>
     f32_add (CCS_ALPHA cfg) (CCS_BETA cfg) = 1
     \<and> 0 \<le> CCS_THETA_LOW cfg
     \<and> CCS_THETA_LOW cfg < CCS_THETA_HIGH cfg
     \<and> CCS_THETA_HIGH cfg \<le> 1
     \<and> 0 < HAR_TEMPERATURE cfg
     \<and> 0 \<le> HAR_TAU_UNKNOWN cfg \<and> HAR_TAU_UNKNOWN cfg \<le> 1
     \<and> 1 \<le> CCS_WINDOW_SIZE cfg
     \<and> 0 \<le> CCS_MIN_DWELL_MS cfg
     \<and> 0 < BLE_INTERVAL_QUIET cfg
     \<and> 0 < BLE_INTERVAL_UNCERTAIN cfg
     \<and> 0 < BLE_INTERVAL_ACTIVE cfg
     \<and> 0 < BLE_INTERVAL_FALLBACK cfg"

text \<open>
  \<^verbatim>\<open>map_to_4class\<close> of \<^verbatim>\<open>har_config.h\<close>. The argument and the result are C \<^verbatim>\<open>int\<close>s; the
  function only compares its argument with constants, so nothing can overflow and every
  32-bit argument is an \<^typ>\<open>int\<close>. The four tests are kept in the order of the source.
\<close>

definition map_to_4class :: "int \<Rightarrow> int" where
  "map_to_4class class_12 =
     (if class_12 = 12 then 3
      else if class_12 = 3 \<or> class_12 = 8 \<or> class_12 = 9 \<or> class_12 = 10 then 0
      else if class_12 = 4 \<or> class_12 = 5 \<or> class_12 = 6 \<or> class_12 = 7 \<or> class_12 = 11
      then 1
      else if class_12 = 0 \<or> class_12 = 1 \<or> class_12 = 2 then 2
      else 3)"

text \<open>\<^verbatim>\<open>map_to_4class\<close> of \<^verbatim>\<open>har_config_phase1.h\<close>.\<close>

definition map_to_4class_phase1 :: "int \<Rightarrow> int" where
  "map_to_4class_phase1 class_12 =
     (if class_12 = 12 then 3
      else if class_12 = 3 \<or> class_12 = 8 \<or> class_12 = 9 \<or> class_12 = 10 then 0
      else if class_12 = 4 \<or> class_12 = 5 \<or> class_12 = 6 \<or> class_12 = 7 \<or> class_12 = 11
      then 1
      else if class_12 = 0 \<or> class_12 = 1 \<or> class_12 = 2 then 2
      else 3)"

text \<open>
  Modelled from the spec: the error kinds of the pipeline, which the source files do not
  declare (no header defines an error code, an exception or a log call).
\<close>

datatype error =
  UnknownSession | OutOfRangeClass | NumericUnderflow | ConfigError | TimeRegression
  | WatchdogTimeout

text \<open>
  Everything a caller of \<^verbatim>\<open>map_to_4class\<close> receives. The C function has the signature
  \<^verbatim>\<open>int map_to_4class(int)\<close>: it has no out-parameter, writes no variable, calls nothing
  and logs nothing, so the returned \<^verbatim>\<open>int\<close> is its whole effect and no error is signalled
  on any path.
\<close>

record call_outcome =
  returned :: int
  signalled :: "error option"

definition map_to_4class_call :: "int \<Rightarrow> call_outcome" where
  "map_to_4class_call class_12 = \<lparr> returned = map_to_4class class_12, signalled = None \<rparr>"


section \<open>The label tables\<close>

text \<open>
  \<^verbatim>\<open>labels_all.h\<close>: for each subject a \<^verbatim>\<open>uint8_t\<close> array and its element count, a
  \<^verbatim>\<open>uint16_t\<close> computed as \<^verbatim>\<open>sizeof(a)/sizeof(a[0])\<close>, that is, the number of elements of
  the array.
\<close>

definition labels_01 :: "8 word list" where
  "labels_01 = [0, 0, 1, 1, 2, 2, 0, 1, 2, 0]"

definition nLabels_01 :: "16 word" where
  "nLabels_01 = of_nat (length labels_01)"

definition labels_02 :: "8 word list" where
  "labels_02 = [0, 1, 2, 0, 1, 2, 0, 1, 2, 0]"

definition nLabels_02 :: "16 word" where
  "nLabels_02 = of_nat (length labels_02)"

definition labels_03 :: "8 word list" where
  "labels_03 = [0, 0, 0, 1, 1, 1, 2, 2, 2, 0]"

definition nLabels_03 :: "16 word" where
  "nLabels_03 = of_nat (length labels_03)"

definition labels_04 :: "8 word list" where
  "labels_04 = [0, 2, 1, 0, 2, 1, 0, 2, 1, 0]"

definition nLabels_04 :: "16 word" where
  "nLabels_04 = of_nat (length labels_04)"

definition labels_05 :: "8 word list" where
  "labels_05 = [2, 2, 2, 1, 1, 0, 0, 0, 1, 2]"

definition nLabels_05 :: "16 word" where
  "nLabels_05 = of_nat (length labels_05)"

definition labels_06 :: "8 word list" where
  "labels_06 = [1, 1, 0, 0, 2, 2, 1, 1, 0, 0]"

definition nLabels_06 :: "16 word" where
  "nLabels_06 = of_nat (length labels_06)"

definition labels_07 :: "8 word list" where
  "labels_07 = [2, 1, 0, 2, 1, 0, 2, 1, 0, 2]"

definition nLabels_07 :: "16 word" where
  "nLabels_07 = of_nat (length labels_07)"

definition labels_08 :: "8 word list" where
  "labels_08 = [0, 1, 0, 1, 2, 2, 1, 0, 2, 1]"

definition nLabels_08 :: "16 word" where
  "nLabels_08 = of_nat (length labels_08)"

definition labels_09 :: "8 word list" where
  "labels_09 = [1, 0, 1, 0, 2, 1, 2, 0, 2, 1]"

definition nLabels_09 :: "16 word" where
  "nLabels_09 = of_nat (length labels_09)"

definition labels_10 :: "8 word list" where
  "labels_10 = [2, 0, 2, 0, 1, 1, 0, 2, 1, 0]"

definition nLabels_10 :: "16 word" where
  "nLabels_10 = of_nat (length labels_10)"

text \<open>
  \<^verbatim>\<open>struct SessionLabels\<close>. The field \<^verbatim>\<open>id\<close> is named \<open>sess_id\<close> here (\<open>id\<close> is the
  identity function of HOL); \<open>seq\<close> is the array the pointer \<^verbatim>\<open>seq\<close> refers to.
\<close>

record SessionLabels =
  sess_id :: string
  seq :: "8 word list"
  len :: "16 word"

definition SESSIONS :: "SessionLabels list" where
  "SESSIONS =
     [ \<lparr> sess_id = ''01'', seq = labels_01, len = nLabels_01 \<rparr>,
       \<lparr> sess_id = ''02'', seq = labels_02, len = nLabels_02 \<rparr>,
       \<lparr> sess_id = ''03'', seq = labels_03, len = nLabels_03 \<rparr>,
       \<lparr> sess_id = ''04'', seq = labels_04, len = nLabels_04 \<rparr>,
       \<lparr> sess_id = ''05'', seq = labels_05, len = nLabels_05 \<rparr>,
       \<lparr> sess_id = ''06'', seq = labels_06, len = nLabels_06 \<rparr>,
       \<lparr> sess_id = ''07'', seq = labels_07, len = nLabels_07 \<rparr>,
       \<lparr> sess_id = ''08'', seq = labels_08, len = nLabels_08 \<rparr>,
       \<lparr> sess_id = ''09'', seq = labels_09, len = nLabels_09 \<rparr>,
       \<lparr> sess_id = ''10'', seq = labels_10, len = nLabels_10 \<rparr> ]"

definition NUM_SESSIONS :: "8 word" where
  "NUM_SESSIONS = of_nat (length SESSIONS)"

text \<open>
  The two-digit decimal string of a number below 100, as the specification names the
  session ids ("01" .. "10").
\<close>

definition digit_char :: "nat \<Rightarrow> char" where
  "digit_char d = char_of (48 + d)"

definition two_digit :: "nat \<Rightarrow> string" where
  "two_digit n = [digit_char (n div 10), digit_char (n mod 10)]"


section \<open>Cyclic playback\<close>

text \<open>
  Modelled from the spec: the cursor of the Label Playback Source, which is not in the
  source files (\<^verbatim>\<open>labels_all.h\<close> holds the tables only; its head comment says that the
  label sequences are kept in flash and replayed in a loop). A cursor is a session and
  a position in its sequence.
\<close>

record cursor =
  session :: SessionLabels
  pos :: nat

text \<open>
  Modelled from the spec: \<^verbatim>\<open>open(session_id)\<close>, not in the source files. It looks the id up
  in \<open>SESSIONS\<close>, from the first entry on, and fails with \<open>UnknownSession\<close> when no entry
  has it; the cursor starts at position 0.
\<close>

definition open_session :: "string \<Rightarrow> error + cursor" where
  "open_session sid =
     (case find (\<lambda>s. sess_id s = sid) SESSIONS of
        None \<Rightarrow> Inl UnknownSession
      | Some s \<Rightarrow> Inr \<lparr> session = s, pos = 0 \<rparr>)"

text \<open>
  Modelled from the spec: \<^verbatim>\<open>next(cursor)\<close>, not in the source files. It reads the label at
  the position and advances the position by one, wrapping to 0 at \<open>len\<close>. A read outside
  the array and a remainder by a length of 0 have no defined result in C: the model
  returns \<open>None\<close> there.
\<close>

definition next_label :: "cursor \<Rightarrow> (8 word \<times> cursor) option" where
  "next_label c =
     (let s = session c; n = unat (len s)
      in if n = 0 \<or> n \<le> pos c \<or> length (seq s) \<le> pos c then None
         else Some (seq s ! pos c, c\<lparr> pos := (pos c + 1) mod n \<rparr>))"

text \<open>
  Modelled from the spec: the sequence of calls of \<^verbatim>\<open>next\<close> on one cursor. \<open>nth_label c n\<close>
  is the label returned by call number \<open>n\<close> (counted from 0) on a cursor that starts as
  \<open>c\<close>, and \<open>None\<close> when a call before it or the call itself has no result.
\<close>

fun nth_label :: "cursor \<Rightarrow> nat \<Rightarrow> 8 word option" where
  "nth_label c 0 = map_option fst (next_label c)"
| "nth_label c (Suc n) =
     (case next_label c of None \<Rightarrow> None | Some (l, c') \<Rightarrow> nth_label c' n)"


section \<open>Modes, bands and the advertising interval\<close>

text \<open>
  Modelled from the spec: the modes of the Mode Controller. The source files declare no
  mode type; the headers hold one interval macro for each mode.
\<close>

datatype mode = QUIET | UNCERTAIN | ACTIVE | FALLBACK

text \<open>
  Modelled from the spec: the desired band of a CCS value, a function that is not in the
  source files. The headers hold the two thresholds, and the comments on the interval
  macros give the band of each interval: \<^verbatim>\<open>CCS < theta_low\<close>,
  \<^verbatim>\<open>theta_low <= CCS < theta_high\<close>, \<^verbatim>\<open>CCS >= theta_high\<close>. CCS is a finite \<^verbatim>\<open>float\<close>, a
  \<^typ>\<open>rat\<close> here (a NaN compares false with everything and is no CCS value).
\<close>

definition desired_band :: "har_config \<Rightarrow> rat \<Rightarrow> mode" where
  "desired_band cfg ccs =
     (if ccs < CCS_THETA_LOW cfg then QUIET
      else if ccs < CCS_THETA_HIGH cfg then UNCERTAIN
      else ACTIVE)"

text \<open>
  Modelled from the spec: the mapping from mode to advertising interval, a function that
  is not in the source files. It sends each mode to the interval macro of the header that
  carries the mode's name.
\<close>

definition ble_interval :: "har_config \<Rightarrow> mode \<Rightarrow> int" where
  "ble_interval cfg m =
     (case m of
        QUIET \<Rightarrow> BLE_INTERVAL_QUIET cfg
      | UNCERTAIN \<Rightarrow> BLE_INTERVAL_UNCERTAIN cfg
      | ACTIVE \<Rightarrow> BLE_INTERVAL_ACTIVE cfg
      | FALLBACK \<Rightarrow> BLE_INTERVAL_FALLBACK cfg)"

text \<open>
  Modelled from the spec: the reverse lookup on intervals, not in the source files. It
  gives the first mode, in the order of the list, that \<open>ble_interval\<close> sends to the interval.
\<close>

definition mode_of_interval :: "har_config \<Rightarrow> int \<Rightarrow> mode option" where
  "mode_of_interval cfg ms =
     find (\<lambda>m. ble_interval cfg m = ms) [QUIET, UNCERTAIN, ACTIVE, FALLBACK]"


section \<open>The taxonomy mapper\<close>

text \<open>
  C1. \<^verbatim>\<open>map_to_4class\<close> is a total function that sends the ids 0, 1, 2 to Stationary (2),
  the ids 3, 8, 9, 10 to Locomotion (0), the ids 4, 5, 6, 7, 11 to Transition (1) and the
  id 12 to Unknown (3), in both headers.
\<close>

theorem map_to_4class_table:
  "map map_to_4class [0, 1, 2, 3, 4, 5, 6, 7, 8, 9, 10, 11, 12]
     = [2, 2, 2, 0, 1, 1, 1, 1, 0, 0, 0, 1, 3]
   \<and> map map_to_4class_phase1 [0, 1, 2, 3, 4, 5, 6, 7, 8, 9, 10, 11, 12]
     = [2, 2, 2, 0, 1, 1, 1, 1, 0, 0, 0, 1, 3]"
  by (simp add: map_to_4class_def map_to_4class_phase1_def)


text \<open>The ids of the 12-class taxonomy, one by one.\<close>

lemma known_id_cases:
  "0 \<le> c \<and> c \<le> 11 \<Longrightarrow> c \<in> {0, 1, 2, 3, 4, 5, 6, 7, 8, 9, 10, 11 :: int}"
  by (simp only: insert_iff empty_iff simp_thms) presburger

text \<open>
  C10. \<^verbatim>\<open>map_to_4class\<close> returns Unknown (3) exactly for the ids outside 0..11, and an id
  in 0..11 is mapped to one of 0, 1, 2, in both headers.
\<close>

theorem map_to_4class_unknown_iff:
  "(map_to_4class c = 3 \<longleftrightarrow> c < 0 \<or> 11 < c)
   \<and> (0 \<le> c \<and> c \<le> 11 \<longrightarrow> map_to_4class c \<in> {0, 1, 2})
   \<and> (map_to_4class_phase1 c = 3 \<longleftrightarrow> c < 0 \<or> 11 < c)
   \<and> (0 \<le> c \<and> c \<le> 11 \<longrightarrow> map_to_4class_phase1 c \<in> {0, 1, 2})"
proof (cases "0 \<le> c \<and> c \<le> 11")
  case True
  then have "c \<in> {0, 1, 2, 3, 4, 5, 6, 7, 8, 9, 10, 11}"
    by (rule known_id_cases)
  then show ?thesis
    by (auto simp: map_to_4class_def map_to_4class_phase1_def)
next
  case False
  then have "c < 0 \<or> 11 < c" by arith
  then show ?thesis
    by (auto simp: map_to_4class_def map_to_4class_phase1_def)
qed

theorem map_to_4class_unknown_iff_witness:
  "(0::int) \<le> 9 \<and> (9::int) \<le> 11 \<and> map_to_4class 9 = 0 \<and> map_to_4class_phase1 9 = 0
   \<and> map_to_4class 9 \<noteq> 3"
  using map_to_4class_unknown_iff [of 9]
  by (simp add: map_to_4class_def map_to_4class_phase1_def)

text \<open>
  C2, as stated: for an id outside 0..12 the call returns Unknown (3) and signals
  \<open>OutOfRangeClass\<close> to the caller. The call on 13 returns 3 and signals nothing.
\<close>

theorem map_to_4class_signal_counterexample:
  "\<not> (returned (map_to_4class_call 13) = 3
       \<and> signalled (map_to_4class_call 13) = Some OutOfRangeClass)"
  by (simp add: map_to_4class_call_def)

text \<open>
  C2, amended: for every id outside 0..12 (negative or greater than 12) the call returns
  Unknown (3), and it signals no error: the returned value is all the caller receives.
\<close>

theorem map_to_4class_out_of_range:
  "c < 0 \<or> 12 < c \<Longrightarrow> map_to_4class_call c = \<lparr> returned = 3, signalled = None \<rparr>"
  by (auto simp: map_to_4class_call_def map_to_4class_def)

theorem map_to_4class_out_of_range_witness:
  "((-1::int) < 0 \<or> (12::int) < -1)
   \<and> map_to_4class_call (-1) = \<lparr> returned = 3, signalled = None \<rparr>"
  using map_to_4class_out_of_range [of "-1"] by simp


section \<open>The two profiles\<close>

text \<open>The binary32 values of the literals of the two headers.\<close>

lemma f32_literals:
  "f32 (7320 / 10000) = 6140461 / 2 ^ 23"
  "f32 (5800 / 10000) = 9730785 / 2 ^ 24"
  "f32 (6 / 10) = 10066330 / 2 ^ 24"
  "f32 (4 / 10) = 13421773 / 2 ^ 25"
  "f32 (40 / 100) = 13421773 / 2 ^ 25"
  "f32 (70 / 100) = 11744051 / 2 ^ 24"
  "f32 (15 / 100) = 10066330 / 2 ^ 26"
  "f32 (35 / 100) = 11744051 / 2 ^ 25"
  by code_simp+

text \<open>
  Each of these values has a 24-bit significand and lies within less than half a unit in
  the last place of its decimal literal: it is the binary32 number nearest to the literal.
\<close>

lemma f32_literals_nearest:
  "\<bar>6140461 / 2 ^ 23 - 7320 / 10000 :: rat\<bar> < 1 / 2 ^ 24"
  "\<bar>9730785 / 2 ^ 24 - 5800 / 10000 :: rat\<bar> < 1 / 2 ^ 25"
  "\<bar>10066330 / 2 ^ 24 - 6 / 10 :: rat\<bar> < 1 / 2 ^ 25"
  "\<bar>13421773 / 2 ^ 25 - 4 / 10 :: rat\<bar> < 1 / 2 ^ 26"
  "\<bar>11744051 / 2 ^ 24 - 70 / 100 :: rat\<bar> < 1 / 2 ^ 25"
  "\<bar>10066330 / 2 ^ 26 - 15 / 100 :: rat\<bar> < 1 / 2 ^ 27"
  "\<bar>11744051 / 2 ^ 25 - 35 / 100 :: rat\<bar> < 1 / 2 ^ 26"
  by simp_all

text \<open>
  The exact sum of \<^verbatim>\<open>0.6f\<close> and \<^verbatim>\<open>0.4f\<close> is \<open>1 + 2^-25\<close>, a quarter of the spacing \<open>2^-23\<close>
  of binary32 above 1: the sum in \<^verbatim>\<open>float\<close> is 1.
\<close>

lemma exact_alpha_plus_beta: "f32 (6 / 10) + f32 (4 / 10) = 1 + 1 / 2 ^ 25"
  by (simp only: f32_literals) simp

text \<open>
  The literals and the exact sum of \<^verbatim>\<open>0.6f\<close> and \<^verbatim>\<open>0.4f\<close> are in the range of the normal
  binary32 numbers, far from overflow and underflow.
\<close>

lemma literals_in_range:
  "\<forall>x \<in> {7320 / 10000, 5800 / 10000, 6 / 10, 4 / 10, 40 / 100, 70 / 100, 15 / 100,
      35 / 100, 1 + 1 / 2 ^ 25}. pow2 (- 126) \<le> x \<and> x < pow2 128"
  by (simp add: pow2_def)

lemma f32_alpha_plus_beta: "f32_add (f32 (6 / 10)) (f32 (4 / 10)) = 1"
  by code_simp

lemma alpha_plus_beta:
  "f32_add (CCS_ALPHA har_config_h) (CCS_BETA har_config_h) = 1"
  "f32_add (CCS_ALPHA har_config_phase1_h) (CCS_BETA har_config_phase1_h) = 1"
  by (simp_all only: har_config_h_def har_config_phase1_h_def har_config.select_convs
      f32_alpha_plus_beta)

lemma float_fields:
  "HAR_TEMPERATURE har_config_h = 6140461 / 2 ^ 23"
  "HAR_TAU_UNKNOWN har_config_h = 9730785 / 2 ^ 24"
  "CCS_THETA_LOW har_config_h = 13421773 / 2 ^ 25"
  "CCS_THETA_HIGH har_config_h = 11744051 / 2 ^ 24"
  "HAR_TEMPERATURE har_config_phase1_h = 6140461 / 2 ^ 23"
  "HAR_TAU_UNKNOWN har_config_phase1_h = 9730785 / 2 ^ 24"
  "CCS_THETA_LOW har_config_phase1_h = 10066330 / 2 ^ 26"
  "CCS_THETA_HIGH har_config_phase1_h = 11744051 / 2 ^ 25"
  by (simp_all only: har_config_h_def har_config_phase1_h_def har_config.select_convs
      f32_literals)

text \<open>
  C3. The header of the "baseline" profile (thresholds \<^verbatim>\<open>0.40f\<close> and \<^verbatim>\<open>0.70f\<close>, dwell
  2000) and the header of the "phase1" profile (thresholds \<^verbatim>\<open>0.15f\<close> and \<^verbatim>\<open>0.35f\<close>, dwell
  1000) both satisfy every parameter invariant: \<^verbatim>\<open>CCS_ALPHA + CCS_BETA\<close>, the sum in
  \<^verbatim>\<open>float\<close>, is 1; \<open>0 \<le> \<theta>_low < \<theta>_high \<le> 1\<close>; the temperature is positive; \<open>\<tau>\<close> is in
  \<open>[0, 1]\<close>; the window is at least 1; the dwell is at least 0; every interval is positive.
\<close>

theorem profiles_satisfy_invariants:
  "param_invariants har_config_h
   \<and> CCS_THETA_LOW har_config_h = f32 (40 / 100)
   \<and> CCS_THETA_HIGH har_config_h = f32 (70 / 100)
   \<and> CCS_MIN_DWELL_MS har_config_h = 2000
   \<and> param_invariants har_config_phase1_h
   \<and> CCS_THETA_LOW har_config_phase1_h = f32 (15 / 100)
   \<and> CCS_THETA_HIGH har_config_phase1_h = f32 (35 / 100)
   \<and> CCS_MIN_DWELL_MS har_config_phase1_h = 1000"
proof -
  have "param_invariants har_config_h"
    unfolding param_invariants_def
    by (simp add: alpha_plus_beta float_fields) (simp add: har_config_h_def)
  moreover have "param_invariants har_config_phase1_h"
    unfolding param_invariants_def
    by (simp add: alpha_plus_beta float_fields) (simp add: har_config_phase1_h_def)
  ultimately show ?thesis
    by (simp add: har_config_h_def har_config_phase1_h_def)
qed

text \<open>
  C9. The two headers define the same function \<^verbatim>\<open>map_to_4class\<close> and the same model,
  calibration, weight, window and interval constants (and the same class names); they
  differ in \<^verbatim>\<open>CCS_THETA_LOW\<close>, \<^verbatim>\<open>CCS_THETA_HIGH\<close> and \<^verbatim>\<open>CCS_MIN_DWELL_MS\<close>, and in nothing
  else.
\<close>

theorem headers_differ_only_in_thresholds_and_dwell:
  "map_to_4class_phase1 = map_to_4class
   \<and> har_config_phase1_h
       = har_config_h \<lparr> CCS_THETA_LOW := f32 (15 / 100), CCS_THETA_HIGH := f32 (35 / 100),
                        CCS_MIN_DWELL_MS := 1000 \<rparr>
   \<and> HAR_INPUT_LENGTH har_config_phase1_h = HAR_INPUT_LENGTH har_config_h
   \<and> HAR_INPUT_CHANNELS har_config_phase1_h = HAR_INPUT_CHANNELS har_config_h
   \<and> HAR_N_CLASSES har_config_phase1_h = HAR_N_CLASSES har_config_h
   \<and> HAR_UNKNOWN_CLASS_ID har_config_phase1_h = HAR_UNKNOWN_CLASS_ID har_config_h
   \<and> HAR_TEMPERATURE har_config_phase1_h = HAR_TEMPERATURE har_config_h
   \<and> HAR_TAU_UNKNOWN har_config_phase1_h = HAR_TAU_UNKNOWN har_config_h
   \<and> CCS_ALPHA har_config_phase1_h = CCS_ALPHA har_config_h
   \<and> CCS_BETA har_config_phase1_h = CCS_BETA har_config_h
   \<and> CCS_WINDOW_SIZE har_config_phase1_h = CCS_WINDOW_SIZE har_config_h
   \<and> BLE_INTERVAL_QUIET har_config_phase1_h = BLE_INTERVAL_QUIET har_config_h
   \<and> BLE_INTERVAL_UNCERTAIN har_config_phase1_h = BLE_INTERVAL_UNCERTAIN har_config_h
   \<and> BLE_INTERVAL_ACTIVE har_config_phase1_h = BLE_INTERVAL_ACTIVE har_config_h
   \<and> BLE_INTERVAL_FALLBACK har_config_phase1_h = BLE_INTERVAL_FALLBACK har_config_h
   \<and> HAR_CLASS_NAMES har_config_phase1_h = HAR_CLASS_NAMES har_config_h
   \<and> CCS_THETA_LOW har_config_phase1_h \<noteq> CCS_THETA_LOW har_config_h
   \<and> CCS_THETA_HIGH har_config_phase1_h \<noteq> CCS_THETA_HIGH har_config_h
   \<and> CCS_MIN_DWELL_MS har_config_phase1_h \<noteq> CCS_MIN_DWELL_MS har_config_h"
proof -
  have "map_to_4class_phase1 = map_to_4class"
    by (rule ext) (simp only: map_to_4class_phase1_def map_to_4class_def)
  moreover have "CCS_THETA_LOW har_config_phase1_h \<noteq> CCS_THETA_LOW har_config_h"
    by (simp add: float_fields)
  moreover have "CCS_THETA_HIGH har_config_phase1_h \<noteq> CCS_THETA_HIGH har_config_h"
    by (simp add: float_fields)
  ultimately show ?thesis
    by (simp add: har_config_h_def har_config_phase1_h_def)
qed

text \<open>In both headers the low threshold is below the high one.\<close>

lemma thresholds_ordered:
  "cfg = har_config_h \<or> cfg = har_config_phase1_h
   \<Longrightarrow> CCS_THETA_LOW cfg < CCS_THETA_HIGH cfg"
  by (auto simp: float_fields)


section \<open>Bands and advertising intervals\<close>

text \<open>
  C7. With thresholds \<open>\<theta>_low < \<theta>_high\<close>, as in both headers, a CCS below \<open>\<theta>_low\<close> gives
  the band QUIET, a CCS from \<open>\<theta>_low\<close> up to but excluding \<open>\<theta>_high\<close> gives UNCERTAIN, and a
  CCS of at least \<open>\<theta>_high\<close> gives ACTIVE; a CCS equal to \<open>\<theta>_low\<close> gives UNCERTAIN and a CCS
  equal to \<open>\<theta>_high\<close> gives ACTIVE.
\<close>

theorem desired_band_partition:
  assumes "CCS_THETA_LOW cfg < CCS_THETA_HIGH cfg"
  shows "(ccs < CCS_THETA_LOW cfg \<longrightarrow> desired_band cfg ccs = QUIET)
    \<and> (CCS_THETA_LOW cfg \<le> ccs \<and> ccs < CCS_THETA_HIGH cfg
        \<longrightarrow> desired_band cfg ccs = UNCERTAIN)
    \<and> (CCS_THETA_HIGH cfg \<le> ccs \<longrightarrow> desired_band cfg ccs = ACTIVE)
    \<and> desired_band cfg (CCS_THETA_LOW cfg) = UNCERTAIN
    \<and> desired_band cfg (CCS_THETA_HIGH cfg) = ACTIVE"
  using assms by (auto simp: desired_band_def)

theorem desired_band_partition_witness:
  "CCS_THETA_LOW har_config_h < CCS_THETA_HIGH har_config_h
   \<and> CCS_THETA_LOW har_config_phase1_h < CCS_THETA_HIGH har_config_phase1_h
   \<and> desired_band har_config_phase1_h (1 / 10) = QUIET
   \<and> desired_band har_config_phase1_h (1 / 4) = UNCERTAIN
   \<and> desired_band har_config_phase1_h (1 / 2) = ACTIVE
   \<and> desired_band har_config_phase1_h (CCS_THETA_LOW har_config_phase1_h) = UNCERTAIN
   \<and> desired_band har_config_phase1_h (CCS_THETA_HIGH har_config_phase1_h) = ACTIVE
   \<and> desired_band har_config_h (CCS_THETA_LOW har_config_h) = UNCERTAIN
   \<and> desired_band har_config_h (CCS_THETA_HIGH har_config_h) = ACTIVE"
proof -
  have b: "CCS_THETA_LOW har_config_h < CCS_THETA_HIGH har_config_h"
    and p: "CCS_THETA_LOW har_config_phase1_h < CCS_THETA_HIGH har_config_phase1_h"
    by (simp_all add: thresholds_ordered)
  have "(1 / 10 :: rat) < CCS_THETA_LOW har_config_phase1_h"
    "CCS_THETA_LOW har_config_phase1_h \<le> (1 / 4 :: rat)"
    "(1 / 4 :: rat) < CCS_THETA_HIGH har_config_phase1_h"
    "CCS_THETA_HIGH har_config_phase1_h \<le> (1 / 2 :: rat)"
    by (simp_all add: float_fields)
  then show ?thesis
    using b p desired_band_partition [OF p, of "1 / 10"]
      desired_band_partition [OF p, of "1 / 4"]
      desired_band_partition [OF p, of "1 / 2"]
      desired_band_partition [OF b, of 0]
    by blast
qed

text \<open>
  C4. The mapping from mode to interval sends QUIET to 2000 ms, UNCERTAIN to 500 ms, ACTIVE
  to 100 ms and FALLBACK to 1000 ms; the four intervals are pairwise distinct, and the reverse lookup of the
  interval of a mode gives the mode back (the mapping is injective, so every reverse
  lookup does). The mapping of the second header is the same.
\<close>

theorem ble_interval_roundtrip:
  "ble_interval har_config_h QUIET = 2000
   \<and> ble_interval har_config_h UNCERTAIN = 500
   \<and> ble_interval har_config_h ACTIVE = 100
   \<and> ble_interval har_config_h FALLBACK = 1000
   \<and> distinct (map (ble_interval har_config_h) [QUIET, UNCERTAIN, ACTIVE, FALLBACK])
   \<and> inj (ble_interval har_config_h)
   \<and> mode_of_interval har_config_h (ble_interval har_config_h m) = Some m
   \<and> ble_interval har_config_phase1_h m = ble_interval har_config_h m
   \<and> mode_of_interval har_config_phase1_h (ble_interval har_config_phase1_h m) = Some m"
proof -
  have "inj (ble_interval har_config_h)"
    by (rule injI)
      (simp add: ble_interval_def har_config_h_def split: mode.splits)
  then show ?thesis
    by (cases m)
      (simp_all add: ble_interval_def mode_of_interval_def har_config_h_def
        har_config_phase1_h_def)
qed


section \<open>The sessions\<close>

lemmas labels_defs =
  labels_01_def labels_02_def labels_03_def labels_04_def labels_05_def
  labels_06_def labels_07_def labels_08_def labels_09_def labels_10_def

lemmas nLabels_defs =
  nLabels_01_def nLabels_02_def nLabels_03_def nLabels_04_def nLabels_05_def
  nLabels_06_def nLabels_07_def nLabels_08_def nLabels_09_def nLabels_10_def

text \<open>Every table has ten labels, each of them 0, 1 or 2, and \<open>len\<close> is its length.\<close>

lemma sessions_wf:
  assumes "s \<in> set SESSIONS"
  shows "unat (len s) = 10" and "length (seq s) = 10" and "set (seq s) \<subseteq> {0, 1, 2}"
  using assms by (auto simp: SESSIONS_def labels_defs nLabels_defs)

text \<open>A search by a key that no two elements share finds the element itself.\<close>

lemma find_by_key:
  "distinct (map f xs) \<Longrightarrow> s \<in> set xs \<Longrightarrow> find (\<lambda>t. f t = f s) xs = Some s"
  by (induction xs) (auto simp: image_iff)

lemma distinct_ids: "distinct (map sess_id SESSIONS)"
  by (simp add: SESSIONS_def)

lemma find_session:
  "s \<in> set SESSIONS \<Longrightarrow> find (\<lambda>t. sess_id t = sess_id s) SESSIONS = Some s"
  using distinct_ids by (rule find_by_key)

lemma two_digit_ids:
  "map two_digit [1, 2, 3, 4, 5, 6, 7, 8, 9, 10]
     = [''01'', ''02'', ''03'', ''04'', ''05'', ''06'', ''07'', ''08'', ''09'', ''10'']"
  by code_simp

lemma index_cases: "j < 10 \<Longrightarrow> j \<in> {0, 1, 2, 3, 4, 5, 6, 7, 8, 9 :: nat}"
  by (simp only: insert_iff empty_iff simp_thms) presburger

lemma two_digit_nth:
  "j < 10 \<Longrightarrow> map two_digit [1, 2, 3, 4, 5, 6, 7, 8, 9, 10] ! j = two_digit (j + 1)"
  by (drule index_cases) (auto simp: numeral_eq_Suc)

text \<open>
  C5. Every session of the registry has a length \<open>len\<close> of at least 1, which is the number
  of elements of its array, and every label \<open>seq[i]\<close>, \<open>i < len\<close>, is 0, 1 or 2.
\<close>

theorem sessions_invariant:
  "\<forall>s \<in> set SESSIONS.
     1 \<le> unat (len s) \<and> unat (len s) = length (seq s)
     \<and> (\<forall>i < unat (len s). seq s ! i \<in> {0, 1, 2})"
proof
  fix s
  assume s: "s \<in> set SESSIONS"
  have "seq s ! i \<in> {0, 1, 2}" if "i < unat (len s)" for i
  proof -
    from that have "i < length (seq s)"
      by (simp add: sessions_wf [OF s])
    then have "seq s ! i \<in> set (seq s)"
      by (rule nth_mem)
    with sessions_wf(3) [OF s] show ?thesis
      by blast
  qed
  then show "1 \<le> unat (len s) \<and> unat (len s) = length (seq s)
     \<and> (\<forall>i < unat (len s). seq s ! i \<in> {0, 1, 2})"
    by (simp add: sessions_wf [OF s])
qed

theorem sessions_invariant_witness:
  "SESSIONS ! 4 \<in> set SESSIONS
   \<and> 1 \<le> unat (len (SESSIONS ! 4))
   \<and> 7 < unat (len (SESSIONS ! 4))
   \<and> seq (SESSIONS ! 4) ! 7 = 0
   \<and> seq (SESSIONS ! 4) ! 7 \<in> {0, 1, 2}"
proof -
  have m: "SESSIONS ! 4 \<in> set SESSIONS"
    by (simp add: SESSIONS_def)
  have l: "7 < unat (len (SESSIONS ! 4))"
    by (simp add: SESSIONS_def nLabels_05_def labels_05_def)
  have v: "seq (SESSIONS ! 4) ! 7 = 0"
    by (simp add: SESSIONS_def labels_05_def)
  from sessions_invariant m
  have "1 \<le> unat (len (SESSIONS ! 4))
    \<and> (\<forall>i < unat (len (SESSIONS ! 4)). seq (SESSIONS ! 4) ! i \<in> {0, 1, 2})"
    by blast
  with m l v show ?thesis
    by blast
qed

text \<open>
  C8. The registry has ten entries, \<^verbatim>\<open>NUM_SESSIONS\<close> is 10, and the ids are "01" to "10" in
  this order: entry \<open>j\<close> (from 0) has the two-digit decimal string of \<open>j + 1\<close> as its id.
  Each session is reached by its index, which is below \<^verbatim>\<open>NUM_SESSIONS\<close>, and by its id: the
  first entry of the registry with the id of entry \<open>j\<close> is entry \<open>j\<close>.
\<close>

theorem session_registry:
  "length SESSIONS = 10
   \<and> unat NUM_SESSIONS = 10
   \<and> map sess_id SESSIONS
       = [''01'', ''02'', ''03'', ''04'', ''05'', ''06'', ''07'', ''08'', ''09'', ''10'']
   \<and> (\<forall>j < 10.
         sess_id (SESSIONS ! j) = two_digit (j + 1)
         \<and> find (\<lambda>s. sess_id s = two_digit (j + 1)) SESSIONS = Some (SESSIONS ! j))"
proof -
  have n: "length SESSIONS = 10"
    by (simp add: SESSIONS_def)
  have ids: "map sess_id SESSIONS
       = [''01'', ''02'', ''03'', ''04'', ''05'', ''06'', ''07'', ''08'', ''09'', ''10'']"
    by (simp add: SESSIONS_def)
  have "sess_id (SESSIONS ! j) = two_digit (j + 1)
      \<and> find (\<lambda>s. sess_id s = two_digit (j + 1)) SESSIONS = Some (SESSIONS ! j)"
    if "j < 10" for j
  proof -
    from that n have m: "SESSIONS ! j \<in> set SESSIONS"
      by simp
    from that n have "sess_id (SESSIONS ! j) = map sess_id SESSIONS ! j"
      by simp
    also have "\<dots> = map two_digit [1, 2, 3, 4, 5, 6, 7, 8, 9, 10] ! j"
      by (simp only: ids two_digit_ids)
    also have "\<dots> = two_digit (j + 1)"
      using that by (rule two_digit_nth)
    finally have i: "sess_id (SESSIONS ! j) = two_digit (j + 1)" .
    from find_session [OF m] show ?thesis
      by (simp add: i)
  qed
  with n ids show ?thesis
    by (simp add: NUM_SESSIONS_def)
qed

theorem session_registry_witness:
  "sess_id (SESSIONS ! 9) = ''10''
   \<and> find (\<lambda>s. sess_id s = ''10'') SESSIONS = Some (SESSIONS ! 9)"
proof -
  have t: "two_digit (9 + 1) = ''10''"
    by code_simp
  have "(9::nat) < 10"
    by simp
  with session_registry
  have "sess_id (SESSIONS ! 9) = two_digit (9 + 1)
    \<and> find (\<lambda>s. sess_id s = two_digit (9 + 1)) SESSIONS = Some (SESSIONS ! 9)"
    by blast
  then show ?thesis
    by (simp only: t)
qed


section \<open>Cyclic playback of a session\<close>

text \<open>A call of \<open>next_label\<close> on a cursor inside its table.\<close>

lemma next_label_step:
  assumes "pos c < unat (len (session c))"
    and "unat (len (session c)) \<le> length (seq (session c))"
  shows "next_label c =
    Some (seq (session c) ! pos c, c\<lparr> pos := (pos c + 1) mod unat (len (session c)) \<rparr>)"
  using assms by (auto simp: next_label_def Let_def)

text \<open>
  From a cursor at position \<open>p\<close> in a table of \<open>n\<close> labels, call number \<open>k\<close> returns the
  label at \<open>(p + k) mod n\<close>: induction on \<open>k\<close>, for every cursor.
\<close>

lemma nth_label_cyclic:
  assumes "unat (len (session c)) = n" and "n \<le> length (seq (session c))" and "pos c < n"
  shows "nth_label c k = Some (seq (session c) ! ((pos c + k) mod n))"
  using assms
proof (induction k arbitrary: c)
  case 0
  then show ?case
    by (simp add: next_label_step)
next
  case (Suc k)
  let ?c' = "c\<lparr> pos := (pos c + 1) mod n \<rparr>"
  from Suc.prems have step: "next_label c = Some (seq (session c) ! pos c, ?c')"
    by (simp add: next_label_step)
  from Suc.prems have "0 < n"
    by simp
  then have "pos ?c' < n"
    by simp
  with Suc.prems have "nth_label ?c' k = Some (seq (session ?c') ! ((pos ?c' + k) mod n))"
    by (intro Suc.IH) simp_all
  moreover have "(pos ?c' + k) mod n = (pos c + Suc k) mod n"
    by (simp add: mod_add_left_eq)
  ultimately show ?case
    by (simp add: step)
qed

lemma open_session_ok:
  assumes "find (\<lambda>t. sess_id t = sess_id s) SESSIONS = Some s"
  shows "open_session (sess_id s) = Inr \<lparr> session = s, pos = 0 \<rparr>"
  using assms by (simp add: open_session_def)

text \<open>
  C6. For every session \<open>s\<close> of the registry, with length \<open>L\<close>, opening the session by its
  id succeeds with a cursor on \<open>s\<close>, and for all \<open>k\<close> and all \<open>i < L\<close> the call number
  \<open>k * L + i\<close> (from 0) of \<open>next_label\<close> returns \<open>seq s ! i\<close>.
\<close>

theorem label_cyclicity:
  assumes "s \<in> set SESSIONS" and "i < unat (len s)"
  shows "\<exists>c. open_session (sess_id s) = Inr c \<and> session c = s
    \<and> nth_label c (k * unat (len s) + i) = Some (seq s ! i)"
proof -
  let ?c = "\<lparr> session = s, pos = 0 \<rparr>"
  let ?L = "unat (len s)"
  from assms(1) have opened: "open_session (sess_id s) = Inr ?c"
    by (intro open_session_ok find_session)
  from assms(1) have "?L \<le> length (seq s)"
    by (simp add: sessions_wf)
  with assms(2)
  have "nth_label ?c (k * ?L + i) = Some (seq (session ?c) ! ((pos ?c + (k * ?L + i)) mod ?L))"
    by (intro nth_label_cyclic) simp_all
  with assms(2) have "nth_label ?c (k * ?L + i) = Some (seq s ! i)"
    by simp
  with opened show ?thesis
    by simp
qed

theorem label_cyclicity_witness:
  "SESSIONS ! 2 \<in> set SESSIONS \<and> 4 < unat (len (SESSIONS ! 2))
   \<and> (\<exists>c. open_session ''03'' = Inr c \<and> nth_label c (2 * 10 + 4) = Some 1)"
proof -
  have m: "SESSIONS ! 2 \<in> set SESSIONS"
    by (simp add: SESSIONS_def)
  have l: "unat (len (SESSIONS ! 2)) = 10"
    by (simp add: SESSIONS_def nLabels_03_def labels_03_def)
  have v: "sess_id (SESSIONS ! 2) = ''03''" "seq (SESSIONS ! 2) ! 4 = 1"
    by (simp_all add: SESSIONS_def labels_03_def)
  have i: "4 < unat (len (SESSIONS ! 2))"
    by (simp add: l)
  from label_cyclicity [OF m i, of 2]
  have "\<exists>c. open_session ''03'' = Inr c \<and> nth_label c (2 * 10 + 4) = Some 1"
    unfolding l v by blast
  with m i show ?thesis
    by blast
qed

end
